theory Spec2Isabelle
  imports Main
begin

section \<open>The detail view of material/frontend/views/detail.py\<close>

text \<open>
  The class \<^verbatim>\<open>DetailModelView\<close> is embedded method by method. Python objects are
  records, \<^verbatim>\<open>None\<close>-able attributes are options, every \<^verbatim>\<open>raise\<close> (and every attribute
  lookup on \<^verbatim>\<open>None\<close>) is a branch that returns \<open>Inl\<close> of an error, and the calls into
  the web framework (the base class's methods, \<^verbatim>\<open>reverse\<close>, \<^verbatim>\<open>modelform_factory\<close>) are
  parameters collected in the record \<open>framework\<close>.
\<close>

subsection \<open>Values, model metadata and model instances\<close>

text \<open>
  The Python values an attribute of a model instance can hold. \<open>PyCallable r\<close> is a
  callable that returns \<open>r\<close> when called without arguments (a bound method such as
  \<^verbatim>\<open>get_status_display\<close>).
\<close>

datatype pyval = PyNone | PyBool bool | PyInt int | PyStr string | PyCallable pyval

text \<open>
  What this file raises itself (\<open>PermissionDenied\<close>, \<open>ImproperlyConfigured\<close> with
  its message), what Python raises for it (\<open>AttributeError\<close> with the attribute that
  is missing, \<open>TypeError\<close> for calling a value that is not callable), and an
  exception that comes out of a call into the framework (\<open>Framework\<close> with its
  description, for example \<^verbatim>\<open>Http404\<close> or \<^verbatim>\<open>NoReverseMatch\<close>).
\<close>

datatype error =
    PermissionDenied
  | ImproperlyConfigured string
  | AttributeError string
  | TypeError string
  | Framework string

text \<open>
  A model field, as far as the view reads it: \<^verbatim>\<open>isinstance(field, models.AutoField)\<close>,
  \<^verbatim>\<open>field.auto_created\<close>, the result of \<^verbatim>\<open>field.get_attname()\<close> and
  \<^verbatim>\<open>field.verbose_name\<close>.
\<close>

record field =
  is_AutoField :: bool
  auto_created :: bool
  get_attname :: string
  verbose_name :: string

text \<open>The \<^verbatim>\<open>_meta\<close> options of a model class, and the model class that carries them.\<close>

record options =
  app_label :: string
  model_name :: string
  meta_fields :: "field list"

record model =
  meta :: options

text \<open>
  A model instance: its class (\<^verbatim>\<open>__class__\<close>, whose \<^verbatim>\<open>_meta\<close> is the instance's
  \<^verbatim>\<open>_meta\<close>), its primary key and its attribute namespace.
\<close>

record model_instance =
  cls :: model
  pk :: pyval
  attrs :: "string \<rightharpoonup> pyval"

definition hasattr :: "model_instance \<Rightarrow> string \<Rightarrow> bool" where
  "hasattr ob name = (case attrs ob name of None \<Rightarrow> False | Some v \<Rightarrow> True)"

definition getattr :: "model_instance \<Rightarrow> string \<Rightarrow> error + pyval" where
  "getattr ob name =
     (case attrs ob name of None \<Rightarrow> Inl (AttributeError name) | Some v \<Rightarrow> Inr v)"

text \<open>Calling a value without arguments: \<^verbatim>\<open>v()\<close>.\<close>

fun call :: "pyval \<Rightarrow> error + pyval" where
  "call (PyCallable r) = Inr r"
| "call v = Inl (TypeError ''object is not callable'')"

subsection \<open>\<^verbatim>\<open>str.title()\<close> on ASCII text\<close>

text \<open>
  Python's \<^verbatim>\<open>str.title()\<close> is a parameter of the model (the field \<open>title\<close> of the
  record \<open>framework\<close> below), since what it does to a letter outside ASCII rests on
  Unicode's tables. On ASCII text it is \<open>ascii_title\<close>: a letter that follows a
  letter is lower-cased, any other letter is upper-cased, and every other character
  stays. The running example, whose verbose names are ASCII, uses it.
\<close>

definition ascii_lowercase :: string where
  "ascii_lowercase = ''abcdefghijklmnopqrstuvwxyz''"

definition ascii_uppercase :: string where
  "ascii_uppercase = ''ABCDEFGHIJKLMNOPQRSTUVWXYZ''"

definition is_cased :: "char \<Rightarrow> bool" where
  "is_cased c = (c \<in> set ascii_lowercase \<or> c \<in> set ascii_uppercase)"

definition upper :: "char \<Rightarrow> char" where
  "upper c = (case map_of (zip ascii_lowercase ascii_uppercase) c of None \<Rightarrow> c | Some u \<Rightarrow> u)"

definition lower :: "char \<Rightarrow> char" where
  "lower c = (case map_of (zip ascii_uppercase ascii_lowercase) c of None \<Rightarrow> c | Some l \<Rightarrow> l)"

fun title_from :: "bool \<Rightarrow> string \<Rightarrow> string" where
  "title_from previous_is_cased [] = []"
| "title_from previous_is_cased (c # cs) =
     (if previous_is_cased then lower c else upper c) # title_from (is_cased c) cs"

definition ascii_title :: "string \<Rightarrow> string" where
  "ascii_title s = title_from False s"

subsection \<open>Users, requests and the viewset\<close>

text \<open>
  \<^verbatim>\<open>request.user.has_perm(perm, obj=obj)\<close> is the default permission backend: the
  user's answer to a permission string and an object (or \<^verbatim>\<open>None\<close>).
\<close>

record user =
  username :: string
  has_perm :: "string \<Rightarrow> model_instance option \<Rightarrow> bool"

record request =
  user :: user

text \<open>
  The optional viewset collaborator: its three permission methods, each called with
  the request and the object.
\<close>

record viewset =
  vs_has_view_permission :: "request \<Rightarrow> model_instance option \<Rightarrow> bool"
  vs_has_change_permission :: "request \<Rightarrow> model_instance option \<Rightarrow> bool"
  vs_has_delete_permission :: "request \<Rightarrow> model_instance option \<Rightarrow> bool"

subsection \<open>The view\<close>

text \<open>
  \<^verbatim>\<open>self.fields\<close> (the record field \<open>fields_attr\<close>: the record package keeps the name
  \<open>fields\<close> for itself) is the string \<^verbatim>\<open>'__all__'\<close> or a list of field names. A form class is a
  configured one, known by its name, or the one \<^verbatim>\<open>modelform_factory\<close> builds for a
  model and a field list.
\<close>

datatype fields_cfg = All_fields | Field_names "string list"

datatype form_class = Named_form string | Model_form model fields_cfg

text \<open>
  \<^verbatim>\<open>self.object\<close>: not set yet (\<^verbatim>\<open>hasattr(self, 'object')\<close> is false), \<^verbatim>\<open>None\<close>, or a
  model instance.
\<close>

datatype object_attr = Unset | Is_None | Is_set model_instance

record view =
  viewset :: "viewset option"
  form_class :: "form_class option"
  fields_attr :: "fields_cfg option"
  model :: "model option"
  object :: object_attr
  request :: request
  template_name :: "string option"
  template_name_suffix :: string
  class_name :: string

text \<open>
  \<^verbatim>\<open>__init__\<close>, applied to the attributes as the base class's \<^verbatim>\<open>__init__\<close> leaves them
  (the class attributes, overridden by the keyword arguments).
\<close>

definition DetailModelView_init :: "view \<Rightarrow> view" where
  "DetailModelView_init self =
     (if form_class self = None \<and> fields_attr self = None
      then self\<lparr>fields_attr := Some All_fields\<rparr>
      else self)"

subsection \<open>Generators\<close>

text \<open>
  A generator, consumed to its end: the pairs it yields, in order, and the exception
  that ends it, if one does. \<open>yield\<close> puts a pair in front of what the rest of the
  run yields.
\<close>

type_synonym generated = "(string \<times> pyval) list \<times> error option"

definition yield :: "string \<times> pyval \<Rightarrow> generated \<Rightarrow> generated" where
  "yield p rest = (p # fst rest, snd rest)"

subsection \<open>The framework around the view\<close>

text \<open>
  What a template context holds under a key: the generator of \<open>get_object_data\<close>
  (by what it yields once it is consumed), a URL, a form bound to an instance, the
  view itself, or a value or an instance that the caller or the base class put there.
\<close>

datatype context_value =
    Object_data generated
  | Url string
  | Form form_class "model_instance option"
  | The_view
  | Value pyval
  | Instance model_instance

type_synonym context_data = "string \<rightharpoonup> context_value"

record queryset =
  qs_model :: model

text \<open>
  The calls that leave the file, each by its result or as a function of its
  arguments; \<open>Inl\<close> describes the exception the call raises.
  \<^item> \<open>super_get_object\<close>: \<^verbatim>\<open>super(DetailModelView, self).get_object()\<close>;
  \<^item> \<open>get_queryset\<close>: \<^verbatim>\<open>self.get_queryset()\<close>;
  \<^item> \<open>modelform_factory\<close>: \<^verbatim>\<open>model_forms.modelform_factory(model, fields=...)\<close>;
  \<^item> \<open>reverse\<close>: \<^verbatim>\<open>reverse(viewname, args=[...])\<close>;
  \<^item> \<open>call_form_class\<close>: \<^verbatim>\<open>form_class(instance=...)\<close>, the call of the form class that
    makes the form;
  \<^item> \<open>super_get_context_data\<close>: \<^verbatim>\<open>super(DetailModelView, self).get_context_data(**kwargs)\<close>;
  \<^item> \<open>title\<close>: \<^verbatim>\<open>field.verbose_name.title()\<close>, as a function of the verbose name.
\<close>

record framework =
  super_get_object :: "string + model_instance"
  get_queryset :: "string + queryset"
  modelform_factory :: "model \<Rightarrow> fields_cfg \<Rightarrow> string + form_class"
  reverse :: "string \<Rightarrow> pyval list \<Rightarrow> string + string"
  call_form_class :: "form_class \<Rightarrow> model_instance option \<Rightarrow> string + context_value"
  super_get_context_data :: "context_data \<Rightarrow> string + context_data"
  title :: "string \<Rightarrow> string"

definition from_framework :: "string + 'a \<Rightarrow> error + 'a" where
  "from_framework r = (case r of Inl e \<Rightarrow> Inl (Framework e) | Inr x \<Rightarrow> Inr x)"

subsection \<open>\<^verbatim>\<open>get_object_data\<close>\<close>

fun object_data_loop :: "framework \<Rightarrow> model_instance \<Rightarrow> field list \<Rightarrow> generated" where
  "object_data_loop fw ob [] = ([], None)"
| "object_data_loop fw ob (f # fs) =
     (if is_AutoField f then object_data_loop fw ob fs
      else if auto_created f then object_data_loop fw ob fs
      else
        (let choice_display_attr = ''get_'' @ get_attname f @ ''_display'' in
         if hasattr ob choice_display_attr then
           (case getattr ob choice_display_attr of
              Inl e \<Rightarrow> ([], Some e)
            | Inr m \<Rightarrow>
                (case call m of
                   Inl e \<Rightarrow> ([], Some e)
                 | Inr v \<Rightarrow> object_data_loop fw ob fs))
         else
           (case getattr ob (get_attname f) of
              Inl e \<Rightarrow> ([], Some e)
            | Inr v \<Rightarrow>
                if v \<noteq> PyNone
                then yield (title fw (verbose_name f), v) (object_data_loop fw ob fs)
                else object_data_loop fw ob fs)))"

definition get_object_data :: "framework \<Rightarrow> view \<Rightarrow> generated" where
  "get_object_data fw self =
     (case object self of
        Unset \<Rightarrow> ([], Some (AttributeError ''object''))
      | Is_None \<Rightarrow> ([], Some (AttributeError ''_meta''))
      | Is_set ob \<Rightarrow> object_data_loop fw ob (meta_fields (meta (cls ob))))"

subsection \<open>The permission checks\<close>

text \<open>
  Modelled from the spec: \<^verbatim>\<open>get_permission_codename\<close> is imported from
  \<^verbatim>\<open>django.contrib.auth\<close> and is not part of the source file. The spec gives the
  permission string as \<^verbatim>\<open><app_label>.<action>_<model_name>\<close>, of which the view
  writes the app label and the dot; the codename is the rest.
\<close>

definition get_permission_codename :: "string \<Rightarrow> options \<Rightarrow> string" where
  "get_permission_codename action opts = action @ ''_'' @ model_name opts"

definition has_change_permission ::
    "view \<Rightarrow> request \<Rightarrow> model_instance option \<Rightarrow> error + bool" where
  "has_change_permission self req obj =
     (case viewset self of
        Some vs \<Rightarrow> Inr (vs_has_change_permission vs req obj)
      | None \<Rightarrow>
          (case model self of
             None \<Rightarrow> Inl (AttributeError ''_meta'')
           | Some m \<Rightarrow>
               (let opts = meta m;
                    codename = get_permission_codename ''change'' opts
                in Inr (has_perm (user req) (app_label opts @ ''.'' @ codename) obj))))"

definition has_view_permission ::
    "view \<Rightarrow> request \<Rightarrow> model_instance option \<Rightarrow> error + bool" where
  "has_view_permission self req obj =
     (case viewset self of
        Some vs \<Rightarrow> Inr (vs_has_view_permission vs req obj)
      | None \<Rightarrow>
          (case model self of
             None \<Rightarrow> Inl (AttributeError ''_meta'')
           | Some m \<Rightarrow>
               (let opts = meta m;
                    codename = get_permission_codename ''view'' opts;
                    view_perm = app_label opts @ ''.'' @ codename
                in if has_perm (user req) view_perm obj then Inr True
                   else has_change_permission self req obj)))"

definition has_delete_permission ::
    "view \<Rightarrow> request \<Rightarrow> model_instance option \<Rightarrow> error + bool" where
  "has_delete_permission self req obj =
     (case viewset self of
        Some vs \<Rightarrow> Inr (vs_has_delete_permission vs req obj)
      | None \<Rightarrow>
          (case model self of
             None \<Rightarrow> Inl (AttributeError ''_meta'')
           | Some m \<Rightarrow>
               (let opts = meta m;
                    codename = get_permission_codename ''delete'' opts
                in Inr (has_perm (user req) (app_label opts @ ''.'' @ codename) obj))))"

subsection \<open>\<^verbatim>\<open>get_object\<close>\<close>

definition get_object :: "framework \<Rightarrow> view \<Rightarrow> error + model_instance" where
  "get_object fw self =
     (case from_framework (super_get_object fw) of
        Inl e \<Rightarrow> Inl e
      | Inr obj \<Rightarrow>
          (case has_view_permission self (request self) (Some obj) of
             Inl e \<Rightarrow> Inl e
           | Inr allowed \<Rightarrow> if \<not> allowed then Inl PermissionDenied else Inr obj))"

subsection \<open>\<^verbatim>\<open>get_form_class\<close>\<close>

definition both_message :: string where
  "both_message = ''Specifying both 'fields' and 'form_class' is not permitted.''"

definition without_fields_message :: "string \<Rightarrow> string" where
  "without_fields_message name =
     ''Using ModelFormMixin (base class of '' @ name @
     '') without the 'fields' attribute is prohibited.''"

text \<open>
  The \<^verbatim>\<open>if\<close>/\<^verbatim>\<open>elif\<close>/\<^verbatim>\<open>else\<close> that picks the model: the configured one, else the
  class of the current object, else the model of the queryset.
\<close>

definition resolve_model :: "framework \<Rightarrow> view \<Rightarrow> error + model" where
  "resolve_model fw self =
     (case model self of
        Some m \<Rightarrow> Inr m
      | None \<Rightarrow>
          (case object self of
             Is_set ob \<Rightarrow> Inr (cls ob)
           | _ \<Rightarrow>
               (case from_framework (get_queryset fw) of
                  Inl e \<Rightarrow> Inl e
                | Inr qs \<Rightarrow> Inr (qs_model qs))))"

definition get_form_class :: "framework \<Rightarrow> view \<Rightarrow> error + form_class" where
  "get_form_class fw self =
     (if fields_attr self \<noteq> None \<and> form_class self \<noteq> None
      then Inl (ImproperlyConfigured both_message)
      else
        (case form_class self of
           Some fc \<Rightarrow> Inr fc
         | None \<Rightarrow>
             (case resolve_model fw self of
                Inl e \<Rightarrow> Inl e
              | Inr m \<Rightarrow>
                  (case fields_attr self of
                     None \<Rightarrow>
                       Inl (ImproperlyConfigured (without_fields_message (class_name self)))
                   | Some fs \<Rightarrow> from_framework (modelform_factory fw m fs)))))"

subsection \<open>\<^verbatim>\<open>get_context_data\<close>\<close>

text \<open>Reading \<^verbatim>\<open>self.object\<close>, and \<^verbatim>\<open>.pk\<close> of what it holds.\<close>

definition self_object :: "view \<Rightarrow> error + model_instance option" where
  "self_object self =
     (case object self of
        Unset \<Rightarrow> Inl (AttributeError ''object'')
      | Is_None \<Rightarrow> Inr None
      | Is_set ob \<Rightarrow> Inr (Some ob))"

definition object_pk :: "view \<Rightarrow> error + pyval" where
  "object_pk self =
     (case self_object self of
        Inl e \<Rightarrow> Inl e
      | Inr None \<Rightarrow> Inl (AttributeError ''pk'')
      | Inr (Some ob) \<Rightarrow> Inr (pk ob))"

text \<open>
  \<^verbatim>\<open>reverse('{}:{}_<action>'.format(opts.app_label, opts.model_name), args=[self.object.pk])\<close>
\<close>

definition reverse_url :: "framework \<Rightarrow> view \<Rightarrow> options \<Rightarrow> string \<Rightarrow> error + string" where
  "reverse_url fw self opts action =
     (case object_pk self of
        Inl e \<Rightarrow> Inl e
      | Inr key \<Rightarrow>
          from_framework
            (reverse fw (app_label opts @ '':'' @ model_name opts @ ''_'' @ action) [key]))"

definition get_context_data :: "framework \<Rightarrow> view \<Rightarrow> context_data \<Rightarrow> error + context_data" where
  "get_context_data fw self kwargs =
     (case model self of
        None \<Rightarrow> Inl (AttributeError ''_meta'')
      | Some m \<Rightarrow>
     (let opts = meta m;
          kwargs1 = kwargs(''object_data'' \<mapsto> Object_data (get_object_data fw self))
      in
     (case self_object self of Inl e \<Rightarrow> Inl e | Inr obj \<Rightarrow>
     (case has_change_permission self (request self) obj of Inl e \<Rightarrow> Inl e | Inr may_change \<Rightarrow>
     (case (if may_change
            then (case reverse_url fw self opts ''change'' of
                    Inl e \<Rightarrow> Inl e
                  | Inr url \<Rightarrow> Inr (kwargs1(''change_url'' \<mapsto> Url url)))
            else Inr kwargs1) of Inl e \<Rightarrow> Inl e | Inr kwargs2 \<Rightarrow>
     (case has_delete_permission self (request self) obj of Inl e \<Rightarrow> Inl e | Inr may_delete \<Rightarrow>
     (case (if may_delete
            then (case reverse_url fw self opts ''delete'' of
                    Inl e \<Rightarrow> Inl e
                  | Inr url \<Rightarrow> Inr (kwargs2(''delete_url'' \<mapsto> Url url)))
            else Inr kwargs2) of Inl e \<Rightarrow> Inl e | Inr kwargs3 \<Rightarrow>
     (case get_form_class fw self of Inl e \<Rightarrow> Inl e | Inr fc \<Rightarrow>
     (case from_framework (call_form_class fw fc obj) of Inl e \<Rightarrow> Inl e | Inr form \<Rightarrow>
        from_framework
          (super_get_context_data fw (kwargs3(''form'' \<mapsto> form))))))))))))"

subsection \<open>\<^verbatim>\<open>get_template_names\<close>\<close>

definition get_template_names :: "view \<Rightarrow> error + string list" where
  "get_template_names self =
     (case template_name self of
        None \<Rightarrow>
          (case model self of
             None \<Rightarrow> Inl (AttributeError ''_meta'')
           | Some m \<Rightarrow>
               (let opts = meta m
                in Inr [app_label opts @ ''/'' @ model_name opts @
                          template_name_suffix self @ ''.html'',
                        ''material/frontend/views/detail.html'']))
      | Some name \<Rightarrow> Inr [name])"

subsection \<open>Reading a result\<close>

definition context_has_key :: "string \<Rightarrow> error + context_data \<Rightarrow> bool" where
  "context_has_key k r = (case r of Inl e \<Rightarrow> False | Inr ctx \<Rightarrow> ctx k \<noteq> None)"

text \<open>The fields that are neither an \<^verbatim>\<open>AutoField\<close> nor auto-created.\<close>

definition declared_field :: "field \<Rightarrow> bool" where
  "declared_field f = (\<not> is_AutoField f \<and> \<not> auto_created f)"

section \<open>A running example\<close>

text \<open>
  A blog post with an automatic primary key, a title, a status with choices (so the
  instance has \<^verbatim>\<open>get_status_display\<close>), a subtitle that is \<^verbatim>\<open>None\<close> and an
  auto-created parent link.
\<close>

definition post_fields :: "field list" where
  "post_fields =
     [\<lparr>is_AutoField = True, auto_created = True, get_attname = ''id'', verbose_name = ''ID''\<rparr>,
      \<lparr>is_AutoField = False, auto_created = False, get_attname = ''title'',
        verbose_name = ''post title''\<rparr>,
      \<lparr>is_AutoField = False, auto_created = False, get_attname = ''status'',
        verbose_name = ''status''\<rparr>,
      \<lparr>is_AutoField = False, auto_created = False, get_attname = ''subtitle'',
        verbose_name = ''subtitle''\<rparr>,
      \<lparr>is_AutoField = False, auto_created = True, get_attname = ''entry_ptr_id'',
        verbose_name = ''entry ptr''\<rparr>]"

definition post_model :: model where
  "post_model = \<lparr>meta = \<lparr>app_label = ''blog'', model_name = ''post'', meta_fields = post_fields\<rparr>\<rparr>"

definition post :: model_instance where
  "post =
     \<lparr>cls = post_model, pk = PyInt 7,
      attrs = map_of
        [(''id'', PyInt 7),
         (''title'', PyStr ''hello world''),
         (''status'', PyStr ''d''),
         (''get_status_display'', PyCallable (PyStr ''Draft'')),
         (''subtitle'', PyNone),
         (''entry_ptr_id'', PyInt 3)]\<rparr>"

text \<open>A user who holds exactly the listed permissions, and the request of that user.\<close>

definition user_with :: "string list \<Rightarrow> user" where
  "user_with granted =
     \<lparr>username = ''alice'', has_perm = (\<lambda>perm obj. perm \<in> set granted)\<rparr>"

definition request_of :: "string list \<Rightarrow> request" where
  "request_of granted = \<lparr>user = user_with granted\<rparr>"

text \<open>
  The view as the framework sets it up for the post: no viewset, no template
  override, the field list that \<open>DetailModelView_init\<close> supplies.
\<close>

definition post_view :: "string list \<Rightarrow> view" where
  "post_view granted =
     \<lparr>viewset = None, form_class = None, fields_attr = Some All_fields,
      model = Some post_model, object = Is_set post, request = request_of granted,
      template_name = None, template_name_suffix = ''_detail'',
      class_name = ''DetailModelView''\<rparr>"

text \<open>
  A framework that finds the post, builds model forms and binds them to the
  instance, reverses a view name to a path and, as the base class's
  \<^verbatim>\<open>get_context_data\<close>, adds the object and the view to the keyword arguments it
  gets.
\<close>

definition base_context :: "context_data \<Rightarrow> string + context_data" where
  "base_context kwargs =
     (let context = map_of [(''object'', Instance post), (''post'', Instance post)] ++ kwargs
      in Inr (if context ''view'' = None then context(''view'' \<mapsto> The_view) else context))"

definition post_framework :: framework where
  "post_framework =
     \<lparr>super_get_object = Inr post,
      get_queryset = Inr \<lparr>qs_model = post_model\<rparr>,
      modelform_factory = (\<lambda>m fs. Inr (Model_form m fs)),
      reverse = (\<lambda>viewname args. Inr (''/'' @ viewname @ ''/'')),
      call_form_class = (\<lambda>fc ob. Inr (Form fc ob)),
      super_get_context_data = base_context,
      title = ascii_title\<rparr>"

text \<open>
  Two viewsets: one that lets everybody change and nobody view, and one that asks the
  permission backend of the request's user for the post's permissions.
\<close>

definition edit_only_viewset :: viewset where
  "edit_only_viewset =
     \<lparr>vs_has_view_permission = (\<lambda>req obj. False),
      vs_has_change_permission = (\<lambda>req obj. True),
      vs_has_delete_permission = (\<lambda>req obj. False)\<rparr>"

definition backend_viewset :: viewset where
  "backend_viewset =
     \<lparr>vs_has_view_permission = (\<lambda>req obj. has_perm (user req) ''blog.view_post'' obj),
      vs_has_change_permission = (\<lambda>req obj. has_perm (user req) ''blog.change_post'' obj),
      vs_has_delete_permission = (\<lambda>req obj. has_perm (user req) ''blog.delete_post'' obj)\<rparr>"

text \<open>
  A view with a field list but neither a model nor an object, in a framework whose
  \<^verbatim>\<open>get_queryset\<close> has no queryset to return and raises.
\<close>

definition unbound_view :: view where
  "unbound_view =
     \<lparr>viewset = None, form_class = None, fields_attr = Some All_fields,
      model = None, object = Unset, request = request_of [],
      template_name = None, template_name_suffix = ''_detail'',
      class_name = ''DetailModelView''\<rparr>"

definition missing_queryset :: string where
  "missing_queryset = ''ImproperlyConfigured: DetailModelView is missing a QuerySet.''"

definition unbound_framework :: framework where
  "unbound_framework = post_framework\<lparr>get_queryset := Inl missing_queryset\<rparr>"

text \<open>Keyword arguments of a caller that brings a change link of its own.\<close>

definition caller_kwargs :: context_data where
  "caller_kwargs = map_of [(''change_url'', Url ''/drafts/'')]"

section \<open>Properties\<close>

lemmas example_defs = post_view_def post_def post_model_def post_fields_def request_of_def
  user_with_def post_framework_def base_context_def

lemmas permission_defs = has_view_permission_def has_change_permission_def
  has_delete_permission_def get_permission_codename_def

lemmas title_defs = ascii_title_def upper_def lower_def is_cased_def ascii_lowercase_def
  ascii_uppercase_def

subsection \<open>\<^verbatim>\<open>get_object_data\<close>\<close>

text \<open>
  Fields that are an \<^verbatim>\<open>AutoField\<close> or auto-created change nothing in a run of the
  loop, and every pair the loop yields is the title-cased verbose name and the
  attribute value of a field that is neither.
\<close>

lemma object_data_loop_filter:
  "object_data_loop fw ob fs = object_data_loop fw ob (filter declared_field fs)"
proof (induction fs)
  case Nil
  show ?case by simp
next
  case (Cons f fs)
  show ?case
  proof (cases "declared_field f")
    case True
    then have "\<not> is_AutoField f" and "\<not> auto_created f"
      by (simp_all add: declared_field_def)
    with True Cons.IH show ?thesis
      by (simp add: Let_def split: sum.splits)
  next
    case False
    then have "object_data_loop fw ob (f # fs) = object_data_loop fw ob fs"
      by (auto simp: declared_field_def)
    with False Cons.IH show ?thesis by simp
  qed
qed

lemma object_data_loop_step:
  assumes "p \<in> set (fst (object_data_loop fw ob (f # fs)))"
  shows "p \<in> set (fst (object_data_loop fw ob fs)) \<or>
     (declared_field f \<and> \<not> hasattr ob (''get_'' @ get_attname f @ ''_display'') \<and>
      fst p = title fw (verbose_name f) \<and> getattr ob (get_attname f) = Inr (snd p) \<and>
      snd p \<noteq> PyNone)"
proof (cases "declared_field f")
  case False
  then have "object_data_loop fw ob (f # fs) = object_data_loop fw ob fs"
    by (auto simp: declared_field_def)
  with assms show ?thesis by simp
next
  case True
  then have f: "\<not> is_AutoField f" "\<not> auto_created f"
    by (simp_all add: declared_field_def)
  show ?thesis
  proof (cases "hasattr ob (''get_'' @ get_attname f @ ''_display'')")
    case True
    with assms f show ?thesis
      by (simp add: Let_def split: sum.splits)
  next
    case False
    with assms f True show ?thesis
      by (auto simp: Let_def yield_def split: sum.splits if_splits)
  qed
qed

lemma object_data_loop_origin:
  "p \<in> set (fst (object_data_loop fw ob fs)) \<Longrightarrow>
   \<exists>f \<in> set fs. declared_field f \<and> \<not> hasattr ob (''get_'' @ get_attname f @ ''_display'') \<and>
      fst p = title fw (verbose_name f) \<and> getattr ob (get_attname f) = Inr (snd p) \<and> snd p \<noteq> PyNone"
proof (induction fs)
  case Nil
  then show ?case by simp
next
  case (Cons f fs)
  from object_data_loop_step [OF Cons.prems] Cons.IH
  show ?case by auto
qed

text \<open>
  Claim C6. For every model, the sequence that \<^verbatim>\<open>get_object_data()\<close> produces holds no
  pair for a field that is an auto-generated primary key or an auto-created field:
  every pair it yields is the label and the attribute value of a field of the current
  object's model that is neither, and the whole run (the pairs and how it ends) is the
  run over the model's fields with those two kinds of field taken out.
\<close>

theorem get_object_data_excludes_auto_fields:
  "(\<forall>p \<in> set (fst (get_object_data fw self)).
      \<exists>ob. object self = Is_set ob \<and>
        (\<exists>f \<in> set (meta_fields (meta (cls ob))).
           \<not> is_AutoField f \<and> \<not> auto_created f \<and>
           fst p = title fw (verbose_name f) \<and> getattr ob (get_attname f) = Inr (snd p))) \<and>
   object_data_loop fw ob' fs = object_data_loop fw ob' (filter declared_field fs)"
proof (intro conjI ballI)
  fix p assume p: "p \<in> set (fst (get_object_data fw self))"
  then obtain ob where ob: "object self = Is_set ob"
    by (cases "object self") (simp_all add: get_object_data_def)
  with p have "p \<in> set (fst (object_data_loop fw ob (meta_fields (meta (cls ob)))))"
    by (simp add: get_object_data_def)
  from object_data_loop_origin [OF this] ob
  show "\<exists>ob. object self = Is_set ob \<and>
        (\<exists>f \<in> set (meta_fields (meta (cls ob))).
           \<not> is_AutoField f \<and> \<not> auto_created f \<and>
           fst p = title fw (verbose_name f) \<and> getattr ob (get_attname f) = Inr (snd p))"
    by (auto simp: declared_field_def)
next
  show "object_data_loop fw ob' fs = object_data_loop fw ob' (filter declared_field fs)"
    by (rule object_data_loop_filter)
qed

theorem get_object_data_excludes_auto_fields_witness:
  "fst (get_object_data post_framework (post_view [])) = [(''Post Title'', PyStr ''hello world'')] \<and>
   filter declared_field post_fields = [post_fields ! 1, post_fields ! 2, post_fields ! 3] \<and>
   object_data_loop post_framework post post_fields =
     object_data_loop post_framework post [post_fields ! 1, post_fields ! 2, post_fields ! 3]"
  using get_object_data_excludes_auto_fields
      [where fw = post_framework and self = "post_view []" and ob' = post and fs = post_fields]
  by (simp add: get_object_data_def example_defs declared_field_def hasattr_def getattr_def
      yield_def title_defs)

text \<open>
  Claim C1. A field with a choice-display accessor is to appear with its expanded
  value. On the post of the running example, whose \<^verbatim>\<open>status\<close> field has the accessor
  \<^verbatim>\<open>get_status_display\<close> returning \<^verbatim>\<open>'Draft'\<close>, the generator yields the title alone:
  the display value is computed and then dropped, since the \<^verbatim>\<open>yield\<close> stands in the
  branch of the fields without an accessor.
\<close>

theorem get_object_data_drops_choice_display:
  "getattr post ''get_status_display'' = Inr (PyCallable (PyStr ''Draft'')) \<and>
   get_object_data post_framework (post_view []) = ([(''Post Title'', PyStr ''hello world'')], None)"
  by (simp add: get_object_data_def example_defs hasattr_def getattr_def yield_def title_defs)

subsection \<open>The permission checks\<close>

text \<open>
  Claim C8, as it is stated, has each check ask the backend once, with the string of
  its own action, whenever no viewset is configured. A view without a viewset and
  without a model raises \<^verbatim>\<open>AttributeError\<close> at \<^verbatim>\<open>self.model._meta\<close>, whatever the user is
  granted; and for a user who is granted the \<^verbatim>\<open>change\<close> string and not the \<^verbatim>\<open>view\<close>
  string, \<open>has_view_permission\<close> is true: its answer is not the backend's answer to
  the \<^verbatim>\<open>view\<close> string alone.
\<close>

theorem default_permission_counterexample:
  "viewset unbound_view = None \<and>
   has_change_permission unbound_view (request_of [''blog.change_post'']) None =
     Inl (AttributeError ''_meta'') \<and>
   viewset (post_view []) = None \<and>
   has_perm (user (request_of [''blog.change_post''])) ''blog.view_post'' (Some post) = False \<and>
   has_view_permission (post_view []) (request_of [''blog.change_post'']) (Some post) = Inr True"
  by (simp add: permission_defs Let_def unbound_view_def post_view_def post_model_def
      request_of_def user_with_def)

text \<open>
  Claim C8, amended. With no viewset configured and a model on the view (whose
  \<^verbatim>\<open>_meta\<close> names the app and the model), \<open>has_change_permission\<close> and
  \<open>has_delete_permission\<close> return the answer of the permission backend of the
  request's user to exactly the string \<^verbatim>\<open><app_label>.change_<model_name>\<close> and
  \<^verbatim>\<open><app_label>.delete_<model_name>\<close>, for the object; \<open>has_view_permission\<close> is
  true when the backend grants \<^verbatim>\<open><app_label>.view_<model_name>\<close> and is the backend's
  answer to \<^verbatim>\<open><app_label>.change_<model_name>\<close> otherwise. With no viewset and no
  model, each of the three raises \<^verbatim>\<open>AttributeError\<close>, whatever the backend grants.
\<close>

theorem default_permission_strings:
  "viewset self = None \<Longrightarrow>
   (model self = Some m \<longrightarrow>
      has_view_permission self req obj =
        Inr (has_perm (user req) (app_label (meta m) @ ''.view_'' @ model_name (meta m)) obj \<or>
             has_perm (user req) (app_label (meta m) @ ''.change_'' @ model_name (meta m)) obj) \<and>
      has_change_permission self req obj =
        Inr (has_perm (user req) (app_label (meta m) @ ''.change_'' @ model_name (meta m)) obj) \<and>
      has_delete_permission self req obj =
        Inr (has_perm (user req) (app_label (meta m) @ ''.delete_'' @ model_name (meta m)) obj)) \<and>
   (model self = None \<longrightarrow>
      has_view_permission self req obj = Inl (AttributeError ''_meta'') \<and>
      has_change_permission self req obj = Inl (AttributeError ''_meta'') \<and>
      has_delete_permission self req obj = Inl (AttributeError ''_meta''))"
  by (simp add: permission_defs Let_def)

theorem default_permission_strings_witness:
  "has_view_permission (post_view []) (request_of [''blog.view_post'']) (Some post) = Inr True \<and>
   has_change_permission (post_view []) (request_of [''blog.view_post'']) (Some post) = Inr False \<and>
   has_change_permission (post_view []) (request_of [''blog.change_post'']) (Some post) = Inr True \<and>
   has_delete_permission (post_view []) (request_of [''blog.change_post'']) (Some post) = Inr False \<and>
   has_delete_permission (post_view []) (request_of [''blog.delete_post'']) (Some post) = Inr True \<and>
   has_delete_permission unbound_view (request_of [''blog.delete_post'']) (Some post) =
     Inl (AttributeError ''_meta'')"
proof -
  have v: "viewset (post_view []) = None" and m: "model (post_view []) = Some post_model"
    and u: "viewset unbound_view = None" and n: "model unbound_view = None"
    by (simp_all add: post_view_def unbound_view_def)
  note a = default_permission_strings
    [OF v, of post_model "request_of [''blog.view_post'']" "Some post"]
  note b = default_permission_strings
    [OF v, of post_model "request_of [''blog.change_post'']" "Some post"]
  note c = default_permission_strings
    [OF v, of post_model "request_of [''blog.delete_post'']" "Some post"]
  note d = default_permission_strings
    [OF u, of post_model "request_of [''blog.delete_post'']" "Some post"]
  from a m have 1:
    "has_view_permission (post_view []) (request_of [''blog.view_post'']) (Some post) = Inr True"
    "has_change_permission (post_view []) (request_of [''blog.view_post'']) (Some post) = Inr False"
    by (simp_all add: post_model_def request_of_def user_with_def)
  from b m have 2:
    "has_change_permission (post_view []) (request_of [''blog.change_post'']) (Some post) = Inr True"
    "has_delete_permission (post_view []) (request_of [''blog.change_post'']) (Some post) = Inr False"
    by (simp_all add: post_model_def request_of_def user_with_def)
  from c m have 3:
    "has_delete_permission (post_view []) (request_of [''blog.delete_post'']) (Some post) = Inr True"
    by (simp add: post_model_def request_of_def user_with_def)
  from d n have 4:
    "has_delete_permission unbound_view (request_of [''blog.delete_post'']) (Some post) =
       Inl (AttributeError ''_meta'')"
    by simp
  from 1 2 3 4 show ?thesis
    by (intro conjI)
qed

text \<open>
  Claim C2, as it is stated, covers a view with a viewset. A viewset that lets
  everybody change and nobody view makes \<open>has_change_permission\<close> true and
  \<open>has_view_permission\<close> false: both checks hand the question to the viewset.
\<close>

theorem view_without_change_counterexample:
  "has_change_permission ((post_view [])\<lparr>viewset := Some edit_only_viewset\<rparr>)
      (request_of []) (Some post) = Inr True \<and>
   has_view_permission ((post_view [])\<lparr>viewset := Some edit_only_viewset\<rparr>)
      (request_of []) (Some post) = Inr False"
  by (simp add: permission_defs post_view_def edit_only_viewset_def)

text \<open>
  Claim C2, amended. With no viewset configured, \<open>has_view_permission\<close> returns
  true whenever \<open>has_change_permission\<close> returns true, whether or not the view
  permission itself is granted. With a viewset configured, each of the two checks
  returns the viewset's own answer.
\<close>

theorem change_implies_view:
  "(viewset self = None \<longrightarrow> has_change_permission self req obj = Inr True \<longrightarrow>
      has_view_permission self req obj = Inr True) \<and>
   (viewset self = Some vs \<longrightarrow>
      has_change_permission self req obj = Inr (vs_has_change_permission vs req obj) \<and>
      has_view_permission self req obj = Inr (vs_has_view_permission vs req obj))"
  by (auto simp: permission_defs Let_def split: option.splits)

theorem change_implies_view_witness:
  "viewset (post_view []) = None \<and>
   has_change_permission (post_view []) (request_of [''blog.change_post'']) (Some post) = Inr True \<and>
   has_perm (user (request_of [''blog.change_post''])) ''blog.view_post'' (Some post) = False \<and>
   has_view_permission (post_view []) (request_of [''blog.change_post'']) (Some post) = Inr True \<and>
   has_view_permission ((post_view [])\<lparr>viewset := Some backend_viewset\<rparr>)
     (request_of [''blog.change_post'']) (Some post) = Inr False"
proof -
  have c: "has_change_permission (post_view []) (request_of [''blog.change_post'']) (Some post)
      = Inr True"
    by (simp add: permission_defs Let_def post_view_def post_model_def request_of_def
        user_with_def)
  from change_implies_view [of "post_view []" "request_of [''blog.change_post'']" "Some post"]
    change_implies_view [of "(post_view [])\<lparr>viewset := Some backend_viewset\<rparr>"
      "request_of [''blog.change_post'']" "Some post" backend_viewset] c
  show ?thesis
    by (simp add: post_view_def backend_viewset_def request_of_def user_with_def)
qed

text \<open>
  Claim C9, as it is stated, makes the result independent of the permission backend.
  The viewset is called with the request, which carries the user; a viewset that asks
  that user's backend answers differently on two requests that differ in nothing but
  the user's grants, and so does the view.
\<close>

theorem viewset_asks_backend_counterexample:
  "request_of [] =
     (request_of [''blog.view_post''])
       \<lparr>user := (user (request_of [''blog.view_post'']))\<lparr>has_perm := has_perm (user_with [])\<rparr>\<rparr> \<and>
   has_view_permission ((post_view [])\<lparr>viewset := Some backend_viewset\<rparr>)
     (request_of [''blog.view_post'']) (Some post) = Inr True \<and>
   has_view_permission ((post_view [])\<lparr>viewset := Some backend_viewset\<rparr>)
     (request_of []) (Some post) = Inr False"
  by (simp add: permission_defs post_view_def backend_viewset_def request_of_def user_with_def)

text \<open>
  Claim C9, amended. With a viewset configured, each of \<open>has_view_permission\<close>,
  \<open>has_change_permission\<close> and \<open>has_delete_permission\<close> returns exactly the
  viewset's answer for the same request and object, whatever the view's model is:
  the backend matters only through the viewset's answer, and two runs on requests
  for which the viewset answers alike return the same value.
\<close>

theorem viewset_decides:
  "viewset self = Some vs \<Longrightarrow>
   has_view_permission self req obj = Inr (vs_has_view_permission vs req obj) \<and>
   has_change_permission self req obj = Inr (vs_has_change_permission vs req obj) \<and>
   has_delete_permission self req obj = Inr (vs_has_delete_permission vs req obj) \<and>
   (vs_has_view_permission vs req' obj = vs_has_view_permission vs req obj \<longrightarrow>
      has_view_permission self req' obj = has_view_permission self req obj) \<and>
   (vs_has_change_permission vs req' obj = vs_has_change_permission vs req obj \<longrightarrow>
      has_change_permission self req' obj = has_change_permission self req obj) \<and>
   (vs_has_delete_permission vs req' obj = vs_has_delete_permission vs req obj \<longrightarrow>
      has_delete_permission self req' obj = has_delete_permission self req obj)"
  by (simp add: permission_defs)

theorem viewset_decides_witness:
  "has_view_permission ((post_view [])\<lparr>viewset := Some edit_only_viewset\<rparr>)
     (request_of [''blog.view_post'']) (Some post) = Inr False \<and>
   has_change_permission ((post_view [])\<lparr>viewset := Some edit_only_viewset\<rparr>)
     (request_of [''blog.view_post'']) (Some post) = Inr True \<and>
   has_delete_permission ((post_view [])\<lparr>viewset := Some edit_only_viewset\<rparr>)
     (request_of [''blog.view_post'']) (Some post) = Inr False \<and>
   has_view_permission ((post_view [])\<lparr>viewset := Some edit_only_viewset\<rparr>)
     (request_of []) (Some post) =
   has_view_permission ((post_view [])\<lparr>viewset := Some edit_only_viewset\<rparr>)
     (request_of [''blog.view_post'']) (Some post)"
proof -
  let ?v = "(post_view [])\<lparr>viewset := Some edit_only_viewset\<rparr>"
  let ?r = "request_of [''blog.view_post'']"
  have vs: "viewset ?v = Some edit_only_viewset"
    by simp
  have answers:
    "vs_has_view_permission edit_only_viewset ?r (Some post) = False"
    "vs_has_change_permission edit_only_viewset ?r (Some post) = True"
    "vs_has_delete_permission edit_only_viewset ?r (Some post) = False"
    "vs_has_view_permission edit_only_viewset (request_of []) (Some post) = False"
    by (simp_all add: edit_only_viewset_def)
  note d = viewset_decides [OF vs, of ?r "Some post" "request_of []"]
  from d answers(1) have 1: "has_view_permission ?v ?r (Some post) = Inr False"
    by (simp only:)
  from d answers(2) have 2: "has_change_permission ?v ?r (Some post) = Inr True"
    by (simp only:)
  from d answers(3) have 3: "has_delete_permission ?v ?r (Some post) = Inr False"
    by (simp only:)
  from d answers(1,4) have 4:
    "has_view_permission ?v (request_of []) (Some post) = has_view_permission ?v ?r (Some post)"
    by blast
  from 1 2 3 4 show ?thesis
    by (intro conjI)
qed

subsection \<open>\<^verbatim>\<open>get_object\<close>\<close>

text \<open>
  Claim C3. When the base class retrieves an object, \<open>get_object\<close> raises
  \<^verbatim>\<open>PermissionDenied\<close> (and so returns no object, and raises nothing that says the
  object is missing) if \<open>has_view_permission\<close> is false for the request and that
  object, and returns that very object if it is true.
\<close>

theorem get_object_gate:
  "super_get_object fw = Inr obj \<Longrightarrow>
   (has_view_permission self (request self) (Some obj) = Inr False \<longrightarrow>
      get_object fw self = Inl PermissionDenied) \<and>
   (has_view_permission self (request self) (Some obj) = Inr True \<longrightarrow>
      get_object fw self = Inr obj)"
  by (simp add: get_object_def from_framework_def)

theorem get_object_gate_witness:
  "super_get_object post_framework = Inr post \<and>
   has_view_permission (post_view []) (request (post_view [])) (Some post) = Inr False \<and>
   get_object post_framework (post_view []) = Inl PermissionDenied \<and>
   has_view_permission (post_view [''blog.view_post'']) (request (post_view [''blog.view_post'']))
     (Some post) = Inr True \<and>
   get_object post_framework (post_view [''blog.view_post'']) = Inr post"
proof -
  have found: "super_get_object post_framework = Inr post"
    by (simp add: post_framework_def)
  have denied: "has_view_permission (post_view []) (request (post_view [])) (Some post) = Inr False"
    by (simp add: permission_defs post_view_def post_model_def request_of_def user_with_def
        Let_def)
  have granted: "has_view_permission (post_view [''blog.view_post''])
      (request (post_view [''blog.view_post''])) (Some post) = Inr True"
    by (simp add: permission_defs post_view_def post_model_def request_of_def user_with_def
        Let_def)
  from get_object_gate [OF found, of "post_view []"]
    get_object_gate [OF found, of "post_view [''blog.view_post'']"] found denied granted
  show ?thesis by simp
qed

subsection \<open>\<^verbatim>\<open>get_form_class\<close>\<close>

text \<open>
  Claim C4, as it is stated, has \<open>get_form_class\<close> return a form class whenever
  exactly one of \<^verbatim>\<open>fields\<close> and \<^verbatim>\<open>form_class\<close> is set. A view with a field list but
  no model and no object asks \<^verbatim>\<open>get_queryset()\<close> for the model, and the exception of
  that call comes out of \<open>get_form_class\<close>.
\<close>

theorem get_form_class_queryset_counterexample:
  "fields_attr unbound_view = Some All_fields \<and> form_class unbound_view = None \<and>
   get_form_class unbound_framework unbound_view = Inl (Framework missing_queryset)"
  by (simp add: get_form_class_def resolve_model_def from_framework_def unbound_view_def
      unbound_framework_def post_framework_def)

text \<open>
  Claim C4, amended. \<open>get_form_class\<close> raises \<^verbatim>\<open>ImproperlyConfigured\<close> when both
  \<^verbatim>\<open>fields\<close> and \<^verbatim>\<open>form_class\<close> are set. When neither is set it raises as well: the
  \<^verbatim>\<open>ImproperlyConfigured\<close> about the missing \<^verbatim>\<open>fields\<close> as soon as the model resolves.
  When only \<^verbatim>\<open>form_class\<close> is set it returns that class. When only \<^verbatim>\<open>fields\<close> is set
  it returns the class that \<^verbatim>\<open>modelform_factory\<close> builds for the resolved model and
  the field list, and it passes on the exception of the queryset lookup or of the
  factory when one of them raises.
\<close>

theorem get_form_class_cases:
  "(fields_attr self \<noteq> None \<and> form_class self \<noteq> None \<longrightarrow>
      get_form_class fw self = Inl (ImproperlyConfigured both_message)) \<and>
   (fields_attr self = None \<and> form_class self = None \<longrightarrow>
      (\<exists>e. get_form_class fw self = Inl e) \<and>
      (resolve_model fw self = Inr m \<longrightarrow>
         get_form_class fw self =
           Inl (ImproperlyConfigured (without_fields_message (class_name self))))) \<and>
   (fields_attr self = None \<and> form_class self = Some fc \<longrightarrow>
      get_form_class fw self = Inr fc) \<and>
   (fields_attr self = Some fs \<and> form_class self = None \<longrightarrow>
      (resolve_model fw self = Inr m \<and> modelform_factory fw m fs = Inr fc \<longrightarrow>
         get_form_class fw self = Inr fc) \<and>
      (resolve_model fw self = Inl e \<longrightarrow> get_form_class fw self = Inl e) \<and>
      (resolve_model fw self = Inr m \<and> modelform_factory fw m fs = Inl msg \<longrightarrow>
         get_form_class fw self = Inl (Framework msg)))"
  by (auto simp: get_form_class_def from_framework_def split: sum.splits)

theorem get_form_class_cases_witness:
  "get_form_class post_framework ((post_view [])\<lparr>form_class := Some (Named_form ''PostForm'')\<rparr>) =
     Inl (ImproperlyConfigured both_message) \<and>
   get_form_class post_framework ((post_view [])\<lparr>fields_attr := None\<rparr>) =
     Inl (ImproperlyConfigured (without_fields_message ''DetailModelView'')) \<and>
   get_form_class post_framework
     ((post_view [])\<lparr>fields_attr := None, form_class := Some (Named_form ''PostForm'')\<rparr>) =
     Inr (Named_form ''PostForm'') \<and>
   get_form_class post_framework (post_view []) = Inr (Model_form post_model All_fields) \<and>
   get_form_class unbound_framework unbound_view = Inl (Framework missing_queryset)"
proof -
  have r: "resolve_model post_framework ((post_view [])\<lparr>fields_attr := None\<rparr>) = Inr post_model"
    "resolve_model post_framework (post_view []) = Inr post_model"
    "resolve_model unbound_framework unbound_view = Inl (Framework missing_queryset)"
    by (simp_all add: resolve_model_def from_framework_def post_view_def unbound_view_def
        unbound_framework_def post_framework_def)
  have f: "modelform_factory post_framework post_model All_fields =
      Inr (Model_form post_model All_fields)"
    by (simp add: post_framework_def)
  from get_form_class_cases [of "(post_view [])\<lparr>form_class := Some (Named_form ''PostForm'')\<rparr>"
      post_framework]
    get_form_class_cases [of "(post_view [])\<lparr>fields_attr := None\<rparr>" post_framework post_model]
    get_form_class_cases [of
      "(post_view [])\<lparr>fields_attr := None, form_class := Some (Named_form ''PostForm'')\<rparr>"
      post_framework _ "Named_form ''PostForm''"]
    get_form_class_cases [of "post_view []" post_framework post_model
      "Model_form post_model All_fields" All_fields]
    get_form_class_cases [of unbound_view unbound_framework _ _ All_fields
      "Framework missing_queryset"]
    r f
  show ?thesis
    by (simp add: post_view_def unbound_view_def)
qed

text \<open>
  Claim C10. After \<^verbatim>\<open>__init__\<close>, \<^verbatim>\<open>fields\<close> or \<^verbatim>\<open>form_class\<close> is not \<^verbatim>\<open>None\<close>, and
  \<open>get_form_class\<close> on the view as \<^verbatim>\<open>__init__\<close> leaves it never raises the
  \<^verbatim>\<open>ImproperlyConfigured\<close> about the missing \<^verbatim>\<open>fields\<close> attribute, whatever the
  framework's calls return.
\<close>

theorem init_rules_out_missing_fields:
  "(fields_attr (DetailModelView_init self) \<noteq> None \<or>
    form_class (DetailModelView_init self) \<noteq> None) \<and>
   get_form_class fw (DetailModelView_init self) \<noteq>
     Inl (ImproperlyConfigured (without_fields_message name))"
  by (auto simp: DetailModelView_init_def get_form_class_def resolve_model_def from_framework_def
      both_message_def without_fields_message_def
      split: option.splits sum.splits object_attr.splits)

theorem init_rules_out_missing_fields_witness:
  "fields_attr ((post_view [])\<lparr>fields_attr := None\<rparr>) = None \<and>
   form_class ((post_view [])\<lparr>fields_attr := None\<rparr>) = None \<and>
   fields_attr (DetailModelView_init ((post_view [])\<lparr>fields_attr := None\<rparr>)) = Some All_fields \<and>
   get_form_class post_framework (DetailModelView_init ((post_view [])\<lparr>fields_attr := None\<rparr>)) =
     Inr (Model_form post_model All_fields) \<and>
   get_form_class post_framework (DetailModelView_init ((post_view [])\<lparr>fields_attr := None\<rparr>)) \<noteq>
     Inl (ImproperlyConfigured (without_fields_message ''DetailModelView''))"
  using init_rules_out_missing_fields
      [of "(post_view [])\<lparr>fields_attr := None\<rparr>" post_framework "''DetailModelView''"]
  by (simp add: DetailModelView_init_def get_form_class_def resolve_model_def
      from_framework_def post_view_def post_framework_def)

subsection \<open>\<^verbatim>\<open>get_context_data\<close>\<close>

text \<open>
  Claim C5, as it is stated, ties the key \<^verbatim>\<open>change_url\<close> to the change permission
  alone. The method adds to the keyword arguments of its caller and takes none out:
  for a user without the change permission and a caller that passes a \<^verbatim>\<open>change_url\<close>
  of its own, the context holds \<^verbatim>\<open>change_url\<close>.
\<close>

theorem get_context_data_caller_link_counterexample:
  "has_change_permission (post_view []) (request (post_view [])) (Some post) = Inr False \<and>
   context_has_key ''change_url'' (get_context_data post_framework (post_view []) caller_kwargs)"
  by (simp add: context_has_key_def get_context_data_def get_form_class_def resolve_model_def
      self_object_def from_framework_def permission_defs Let_def example_defs caller_kwargs_def)

text \<open>
  Claim C5, amended. Whenever \<open>get_context_data\<close> produces a context, and the base
  class's \<^verbatim>\<open>get_context_data\<close> passes the two keys through as it gets them, the
  context holds \<^verbatim>\<open>change_url\<close> if and only if \<open>has_change_permission\<close> is true for
  the current object or the caller's keyword arguments hold \<^verbatim>\<open>change_url\<close> already,
  and \<^verbatim>\<open>delete_url\<close> if and only if \<open>has_delete_permission\<close> is true for the current
  object or the caller's keyword arguments hold \<^verbatim>\<open>delete_url\<close> already.
\<close>

theorem get_context_data_urls:
  assumes "get_context_data fw self kwargs = Inr ctx"
    and "\<And>kw c. super_get_context_data fw kw = Inr c \<Longrightarrow>
           (''change_url'' \<in> dom c \<longleftrightarrow> ''change_url'' \<in> dom kw) \<and>
           (''delete_url'' \<in> dom c \<longleftrightarrow> ''delete_url'' \<in> dom kw)"
  shows "\<exists>obj. self_object self = Inr obj \<and>
     (''change_url'' \<in> dom ctx \<longleftrightarrow>
        has_change_permission self (request self) obj = Inr True \<or> ''change_url'' \<in> dom kwargs) \<and>
     (''delete_url'' \<in> dom ctx \<longleftrightarrow>
        has_delete_permission self (request self) obj = Inr True \<or> ''delete_url'' \<in> dom kwargs)"
proof -
  from assms(1) obtain m where m: "model self = Some m"
    by (cases "model self") (simp_all add: get_context_data_def)
  from assms(1) m obtain obj where obj: "self_object self = Inr obj"
    by (cases "self_object self") (simp_all add: get_context_data_def Let_def)
  from assms(1) m obj obtain may_change where
    chg: "has_change_permission self (request self) obj = Inr may_change"
    by (cases "has_change_permission self (request self) obj")
      (simp_all add: get_context_data_def Let_def)
  from assms(1) m obj obtain may_delete where
    del: "has_delete_permission self (request self) obj = Inr may_delete"
    by (cases "has_delete_permission self (request self) obj")
      (auto simp: get_context_data_def Let_def chg split: sum.splits if_splits)
  from assms(1) m obj chg del obtain kw where
    sup: "super_get_context_data fw kw = Inr ctx" and
    c: "''change_url'' \<in> dom kw \<longleftrightarrow> may_change \<or> ''change_url'' \<in> dom kwargs" and
    d: "''delete_url'' \<in> dom kw \<longleftrightarrow> may_delete \<or> ''delete_url'' \<in> dom kwargs"
    by (auto simp: get_context_data_def Let_def from_framework_def
        split: sum.splits if_splits)
  from assms(2) [OF sup] c d obj chg del show ?thesis by simp
qed

theorem get_context_data_urls_witness:
  "context_has_key ''change_url''
     (get_context_data post_framework (post_view [''blog.change_post'']) Map.empty) \<and>
   \<not> context_has_key ''delete_url''
     (get_context_data post_framework (post_view [''blog.change_post'']) Map.empty) \<and>
   has_change_permission (post_view [''blog.change_post''])
     (request (post_view [''blog.change_post''])) (Some post) = Inr True \<and>
   has_delete_permission (post_view [''blog.change_post''])
     (request (post_view [''blog.change_post''])) (Some post) = Inr False"
proof -
  let ?v = "post_view [''blog.change_post'']"
  have keeps: "\<And>kw c. super_get_context_data post_framework kw = Inr c \<Longrightarrow>
      (''change_url'' \<in> dom c \<longleftrightarrow> ''change_url'' \<in> dom kw) \<and>
      (''delete_url'' \<in> dom c \<longleftrightarrow> ''delete_url'' \<in> dom kw)"
    by (auto simp: post_framework_def base_context_def Let_def map_add_def dom_def
        split: if_splits option.splits)
  have ob: "self_object ?v = Inr (Some post)"
    by (simp add: self_object_def post_view_def)
  have chg: "has_change_permission ?v (request ?v) (Some post) = Inr True"
    by (simp add: permission_defs Let_def post_view_def post_model_def request_of_def
        user_with_def)
  have del: "has_delete_permission ?v (request ?v) (Some post) = Inr False"
    by (simp add: permission_defs Let_def post_view_def post_model_def request_of_def
        user_with_def)
  have "\<exists>ctx. get_context_data post_framework ?v Map.empty = Inr ctx"
    by (simp add: get_context_data_def get_form_class_def resolve_model_def reverse_url_def
        object_pk_def self_object_def from_framework_def permission_defs Let_def
        post_view_def post_model_def request_of_def user_with_def post_framework_def
        base_context_def)
  then obtain ctx where ctx: "get_context_data post_framework ?v Map.empty = Inr ctx"
    by blast
  from get_context_data_urls [OF ctx keeps] ob chg del
  have "''change_url'' \<in> dom ctx" and "''delete_url'' \<notin> dom ctx"
    by simp_all
  with ctx chg del show ?thesis
    by (simp add: context_has_key_def dom_def)
qed

subsection \<open>\<^verbatim>\<open>get_template_names\<close>\<close>

text \<open>
  Claim C7, as it is stated, has \<open>get_template_names\<close> return the two-element list
  whenever no template name is configured. A view with neither a template name nor a
  model raises \<^verbatim>\<open>AttributeError\<close> at \<^verbatim>\<open>self.model._meta\<close> and returns no list.
\<close>

theorem get_template_names_no_model_counterexample:
  "template_name unbound_view = None \<and>
   get_template_names unbound_view = Inl (AttributeError ''_meta'')"
  by (simp add: get_template_names_def unbound_view_def)

text \<open>
  Claim C7, amended. With a template name configured, \<open>get_template_names\<close> returns
  the list of that one name. Without one, for a view that has a model, it returns two
  names in this order: \<^verbatim>\<open><app_label>/<model_name><template_name_suffix>.html\<close> and
  \<^verbatim>\<open>material/frontend/views/detail.html\<close>. With neither a template name nor a model
  it raises \<^verbatim>\<open>AttributeError\<close>.
\<close>

theorem get_template_names_cases:
  "(template_name self = Some name \<longrightarrow> get_template_names self = Inr [name]) \<and>
   (template_name self = None \<and> model self = Some m \<longrightarrow>
      get_template_names self =
        Inr [app_label (meta m) @ ''/'' @ model_name (meta m) @ template_name_suffix self @
               ''.html'',
             ''material/frontend/views/detail.html'']) \<and>
   (template_name self = None \<and> model self = None \<longrightarrow>
      get_template_names self = Inl (AttributeError ''_meta''))"
  by (simp add: get_template_names_def Let_def)

theorem get_template_names_cases_witness:
  "get_template_names ((post_view [])\<lparr>template_name := Some ''blog/entry.html''\<rparr>) =
     Inr [''blog/entry.html''] \<and>
   get_template_names (post_view []) =
     Inr [''blog/post_detail.html'', ''material/frontend/views/detail.html''] \<and>
   get_template_names unbound_view = Inl (AttributeError ''_meta'')"
proof -
  have 1: "get_template_names ((post_view [])\<lparr>template_name := Some ''blog/entry.html''\<rparr>) =
      Inr [''blog/entry.html'']"
    using get_template_names_cases
      [of "(post_view [])\<lparr>template_name := Some ''blog/entry.html''\<rparr>" "''blog/entry.html''"]
    by simp
  have 2: "get_template_names (post_view []) =
      Inr [''blog/post_detail.html'', ''material/frontend/views/detail.html'']"
    using get_template_names_cases [of "post_view []" _ post_model]
    by (simp add: post_view_def post_model_def)
  have 3: "get_template_names unbound_view = Inl (AttributeError ''_meta'')"
    using get_template_names_cases [of unbound_view]
    by (simp add: unbound_view_def)
  from 1 2 3 show ?thesis
    by (intro conjI)
qed

end
